theory Spec2Isabelle
  imports Main "HOL-Library.Sublist"
begin

section \<open>Strings\<close>

text \<open>
  Python strings are modelled as \<^typ>\<open>string\<close>, holding the UTF-8 bytes of the text.
  The two needles of the error classification are ASCII, and the only code points whose
  Python \<^verbatim>\<open>lower()\<close> yields the letters of these needles in sequence are the ASCII
  capitals, so lowering the ASCII capitals byte by byte decides the same substring tests.
\<close>

definition lower_char :: "char \<Rightarrow> char" where
  "lower_char c =
     (if 65 \<le> (of_char c :: nat) \<and> (of_char c :: nat) \<le> 90
      then char_of ((of_char c :: nat) + 32) else c)"

definition lower :: "string \<Rightarrow> string" where
  "lower s = map lower_char s"

text \<open>\<^verbatim>\<open>needle in hay\<close> on strings.\<close>

primrec str_in :: "string \<Rightarrow> string \<Rightarrow> bool" where
  "str_in needle [] = (needle = [])"
| "str_in needle (c # cs) = (prefix needle (c # cs) \<or> str_in needle cs)"

text \<open>\<^verbatim>\<open>sep.join(xs)\<close>.\<close>

fun join :: "string \<Rightarrow> string list \<Rightarrow> string" where
  "join sep [] = []"
| "join sep [x] = x"
| "join sep (x # y # ys) = x @ sep @ join sep (y # ys)"

text \<open>\<^verbatim>\<open>str(n)\<close> for a non-negative integer.\<close>

fun str_nat :: "nat \<Rightarrow> string" where
  "str_nat n =
     (if n < 10 then [char_of (48 + n)]
      else str_nat (n div 10) @ [char_of (48 + n mod 10)])"

declare str_nat.simps [simp del]

section \<open>Effects and collaborators\<close>

text \<open>
  Every externally visible action of the program is an event; a run produces the list of
  its events in program order. A sleep carries its duration in seconds, a Telegram post
  its text and its \<^verbatim>\<open>parse_mode\<close>, a Tavily post its query, depth and result limit.
\<close>

datatype event =
    LogInfo string
  | LogError string
  | Print string
  | Sleep nat
  | SetEnv string string
  | CompletionCall string
  | TavilyPost string string nat
  | TelegramPost string "string option"
  | Kickoff

text \<open>
  What one call of a collaborator does: it raises an \<^verbatim>\<open>Exception\<close> whose \<^verbatim>\<open>str(e)\<close> is
  the given text, or it returns a value.
\<close>

datatype 'a outcome = Raises string | Returns 'a

text \<open>
  A computation of the program: the value it returns (\<open>Inr\<close>) or the \<^verbatim>\<open>str(e)\<close> of the
  exception that leaves it (\<open>Inl\<close>), with the events it produced.
\<close>

type_synonym 'a io = "(string + 'a) \<times> event list"

definition ret :: "'a \<Rightarrow> 'a io" where
  "ret x = (Inr x, [])"

definition raise :: "string \<Rightarrow> 'a io" where
  "raise e = (Inl e, [])"

definition emit :: "event \<Rightarrow> unit io" where
  "emit ev = (Inr (), [ev])"

definition bind_io :: "'a io \<Rightarrow> ('a \<Rightarrow> 'b io) \<Rightarrow> 'b io" where
  "bind_io m f =
     (case m of
        (Inl e, tr) \<Rightarrow> (Inl e, tr)
      | (Inr x, tr) \<Rightarrow> (case f x of (r, tr') \<Rightarrow> (r, tr @ tr')))"

text \<open>\<^verbatim>\<open>try: m  except Exception as e: h(e)\<close>.\<close>

definition try_except :: "'a io \<Rightarrow> (string \<Rightarrow> 'a io) \<Rightarrow> 'a io" where
  "try_except m h =
     (case m of
        (Inl e, tr) \<Rightarrow> (case h e of (r, tr') \<Rightarrow> (r, tr @ tr'))
      | (Inr x, tr) \<Rightarrow> (Inr x, tr))"

definition after :: "event list \<Rightarrow> 'a io \<Rightarrow> 'a io" where
  "after evs m = (case m of (r, tr) \<Rightarrow> (r, evs @ tr))"

section \<open>The retry-aware language-model caller\<close>

text \<open>
  The response of \<^verbatim>\<open>completion\<close> is modelled by the contents of its choices;
  \<^verbatim>\<open>response["choices"][0]["message"]["content"]\<close> raises \<^verbatim>\<open>IndexError\<close> on an empty
  list, inside the \<^verbatim>\<open>try\<close>.
\<close>

type_synonym completion_result = "string list outcome"

definition first_content :: "completion_result \<Rightarrow> string + string" where
  "first_content r =
     (case r of
        Raises e \<Rightarrow> Inl e
      | Returns [] \<Rightarrow> Inl ''list index out of range''
      | Returns (content # _) \<Rightarrow> Inr content)"

definition retries :: nat where
  "retries = 3"

definition make_prompt :: "string \<Rightarrow> string" where
  "make_prompt news =
     ''Write a concise (<300 words) US market wrap based on the news:'' @ [CHR 0x0A] @ news"

text \<open>
  The loop \<^verbatim>\<open>for i in range(retries)\<close> from index \<open>i\<close> on. The collaborator is a function
  of the prompt and of the index of the attempt.
\<close>

function attempt_loop :: "(string \<Rightarrow> nat \<Rightarrow> completion_result) \<Rightarrow> string \<Rightarrow> nat \<Rightarrow> string io" where
  "attempt_loop completion prompt i =
     (if i < retries then
        (case first_content (completion prompt i) of
           Inr content \<Rightarrow> (Inr content, [CompletionCall prompt])
         | Inl e \<Rightarrow>
             if str_in ''rate limit'' (lower e) \<or> str_in ''limit'' (lower e) then
               after [CompletionCall prompt,
                      LogInfo (''Rate limit reached, waiting '' @ str_nat ((i + 1) * 15) @ '' seconds...''),
                      Sleep ((i + 1) * 15)]
                 (attempt_loop completion prompt (i + 1))
             else if str_in ''internal server error'' (lower e) then
               after [CompletionCall prompt,
                      LogInfo (''Groq server error, waiting '' @ str_nat ((i + 1) * 10) @ '' seconds...''),
                      Sleep ((i + 1) * 10)]
                 (attempt_loop completion prompt (i + 1))
             else
               (Inr (''Error generating summary: '' @ e),
                [CompletionCall prompt, LogError (''LLM Error: '' @ e)]))
      else (Inr ''Rate limit exceeded or LLM error after retries.'', []))"
  by pat_completeness auto
termination
  by (relation "measure (\<lambda>(completion, prompt, i). retries - i)") auto

declare attempt_loop.simps [simp del]

definition generate_market_wrap :: "(string \<Rightarrow> nat \<Rightarrow> completion_result) \<Rightarrow> string \<Rightarrow> string io" where
  "generate_market_wrap completion news = attempt_loop completion (make_prompt news) 0"

text \<open>Observations on a run.\<close>

fun sleeps :: "event list \<Rightarrow> nat list" where
  "sleeps [] = []"
| "sleeps (Sleep n # evs) = n # sleeps evs"
| "sleeps (_ # evs) = sleeps evs"

fun completion_calls :: "event list \<Rightarrow> nat" where
  "completion_calls [] = 0"
| "completion_calls (CompletionCall _ # evs) = Suc (completion_calls evs)"
| "completion_calls (_ # evs) = completion_calls evs"


section \<open>Text constants\<close>

text \<open>The UTF-8 bytes of the symbols that the program's messages start with.\<close>

definition nl :: string where
  "nl = [CHR 0x0A]"

definition check_mark :: string where
  "check_mark = [CHR 0xE2, CHR 0x9C, CHR 0x85]"

definition cross_mark :: string where
  "cross_mark = [CHR 0xE2, CHR 0x9D, CHR 0x8C]"

definition rocket :: string where
  "rocket = [CHR 0xF0, CHR 0x9F, CHR 0x9A, CHR 0x80]"

definition robot :: string where
  "robot = [CHR 0xF0, CHR 0x9F, CHR 0xA4, CHR 0x96]"

definition party :: string where
  "party = [CHR 0xF0, CHR 0x9F, CHR 0x8E, CHR 0x89]"

definition wrench :: string where
  "wrench = [CHR 0xF0, CHR 0x9F, CHR 0x94, CHR 0xA7]"

definition arrows :: string where
  "arrows = [CHR 0xF0, CHR 0x9F, CHR 0x94, CHR 0x84]"

definition bar_chart :: string where
  "bar_chart = [CHR 0xF0, CHR 0x9F, CHR 0x93, CHR 0x8A]"

definition clock_face :: string where
  "clock_face = [CHR 0xF0, CHR 0x9F, CHR 0x95, CHR 0x90]"

section \<open>HTTP collaborators\<close>

text \<open>
  \<^verbatim>\<open>requests.post\<close> raises (a transport error) or returns a response. Of a response the
  program uses two methods: \<^verbatim>\<open>raise_for_status()\<close>, which raises \<^verbatim>\<open>HTTPError\<close> with the text
  \<open>http_error\<close> or returns, and \<^verbatim>\<open>json()\<close>, which raises or returns the decoded body.
  Which status codes make \<^verbatim>\<open>raise_for_status\<close> raise is the library's business; the
  response carries the answer.
\<close>

record 'a response =
  http_error :: "string option"
  json :: "'a outcome"

definition requests_post :: "event \<Rightarrow> 'a response outcome \<Rightarrow> 'a response io" where
  "requests_post request result =
     (case result of
        Raises e \<Rightarrow> (Inl e, [request])
      | Returns response \<Rightarrow> (Inr response, [request]))"

definition raise_for_status :: "'a response \<Rightarrow> unit io" where
  "raise_for_status response =
     (case http_error response of Some e \<Rightarrow> raise e | None \<Rightarrow> ret ())"

definition response_json :: "'a response \<Rightarrow> 'a io" where
  "response_json response =
     (case json response of Raises e \<Rightarrow> raise e | Returns data \<Rightarrow> ret data)"

text \<open>
  A JSON object with text values is an association list. The body of a search response
  is an object whose keys \<^verbatim>\<open>results\<close> and \<^verbatim>\<open>images\<close> may be absent.
\<close>

type_synonym obj = "(string \<times> string) list"

record search_data =
  results :: "obj list option"
  images :: "obj list option"

text \<open>\<^verbatim>\<open>d.get(k, default)\<close> and \<^verbatim>\<open>d[k]\<close>; the latter raises \<^verbatim>\<open>KeyError\<close>, whose text is the
  quoted key.\<close>

definition dict_get :: "obj \<Rightarrow> string \<Rightarrow> string \<Rightarrow> string" where
  "dict_get d k dflt = (case map_of d k of Some v \<Rightarrow> v | None \<Rightarrow> dflt)"

definition dict_item :: "obj \<Rightarrow> string \<Rightarrow> string io" where
  "dict_item d k =
     (case map_of d k of Some v \<Rightarrow> ret v | None \<Rightarrow> raise ([CHR 0x27] @ k @ [CHR 0x27]))"

section \<open>The tools of the primary path\<close>

datatype query_arg = QStr string | QDict obj

text \<open>Lines 32 to 38; \<open>str_dict\<close> is Python's \<^verbatim>\<open>str\<close> of a dictionary.\<close>

definition normalise_query :: "(obj \<Rightarrow> string) \<Rightarrow> query_arg \<Rightarrow> string" where
  "normalise_query str_dict query =
     (case query of
        QStr s \<Rightarrow> s
      | QDict d \<Rightarrow>
          (case map_of d ''query'' of
             Some v \<Rightarrow> v
           | None \<Rightarrow> (case map_of d ''value'' of Some v \<Rightarrow> v | None \<Rightarrow> str_dict d)))"

text \<open>Lines 56 to 74: the dictionary \<^verbatim>\<open>formatted_results\<close>, keys in insertion order.\<close>

definition formatted_results :: "search_data \<Rightarrow> (string \<times> obj list) list" where
  "formatted_results data =
     (let rs = (case results data of Some xs \<Rightarrow> xs | None \<Rightarrow> []);
          imgs = (case images data of Some xs \<Rightarrow> xs | None \<Rightarrow> [])
      in [(''news_articles'',
             map (\<lambda>r. [(''title'', dict_get r ''title'' []),
                        (''content'', dict_get r ''content'' []),
                        (''url'', dict_get r ''url'' []),
                        (''published_date'', dict_get r ''published_date'' [])])
                 (take 3 rs)),
          (''images'',
             map (\<lambda>img. [(''url'', dict_get img ''url'' []),
                          (''description'', dict_get img ''description'' [])])
                 (take 2 imgs))])"

text \<open>\<open>json_dumps\<close> is the library's \<^verbatim>\<open>json.dumps(_, indent=2)\<close>.\<close>

definition tavily_search_tool ::
  "((string \<times> obj list) list \<Rightarrow> string) \<Rightarrow> (obj \<Rightarrow> string) \<Rightarrow> search_data response outcome
     \<Rightarrow> query_arg \<Rightarrow> string io" where
  "tavily_search_tool json_dumps str_dict post query_arg =
     (let query = normalise_query str_dict query_arg in
      try_except
        (bind_io (emit (LogInfo (''Searching for: '' @ query))) (\<lambda>_.
         bind_io (requests_post (TavilyPost query ''advanced'' 5) post) (\<lambda>response.
         bind_io (raise_for_status response) (\<lambda>_.
         bind_io (response_json response) (\<lambda>data.
         ret (json_dumps (formatted_results data)))))))
        (\<lambda>e. bind_io (emit (LogError (''Error in Tavily search: '' @ e))) (\<lambda>_.
              ret (''Error searching: '' @ e))))"

definition telegram_sender_tool :: "unit response outcome \<Rightarrow> string \<Rightarrow> string io" where
  "telegram_sender_tool post message =
     try_except
       (bind_io (emit (LogInfo ''Sending message to Telegram...'')) (\<lambda>_.
        bind_io (requests_post (TelegramPost message (Some ''Markdown'')) post) (\<lambda>response.
        bind_io (raise_for_status response) (\<lambda>_.
        ret (check_mark @ '' Message sent successfully to Telegram channel'')))))
       (\<lambda>e. bind_io (emit (LogError (''Telegram error: '' @ e))) (\<lambda>_.
             ret (cross_mark @ '' Error sending to Telegram: '' @ e)))"

section \<open>The functions of the fallback path\<close>

definition send_to_telegram_direct :: "unit response outcome \<Rightarrow> string \<Rightarrow> string io" where
  "send_to_telegram_direct post message =
     try_except
       (bind_io (requests_post (TelegramPost message None) post) (\<lambda>response.
        bind_io (raise_for_status response) (\<lambda>_.
        ret ''Message sent successfully'')))
       (\<lambda>e. ret (''Error sending Telegram message: '' @ e))"

text \<open>The comprehension of line 172, one line per result, raising at the first result
  that lacks a key.\<close>

fun news_lines :: "obj list \<Rightarrow> string list io" where
  "news_lines [] = ret []"
| "news_lines (r # rs) =
     bind_io (dict_item r ''title'') (\<lambda>title.
     bind_io (dict_item r ''url'') (\<lambda>url.
     bind_io (news_lines rs) (\<lambda>lines.
     ret ((''- '' @ title @ '': '' @ url) # lines))))"

definition fetch_market_news :: "search_data response outcome \<Rightarrow> string io" where
  "fetch_market_news post =
     try_except
       (bind_io (requests_post
                   (TavilyPost ''today US stock market summary, S&P 500, Nasdaq, Dow Jones, major movers''
                      ''advanced'' 3) post) (\<lambda>response.
        bind_io (raise_for_status response) (\<lambda>_.
        bind_io (response_json response) (\<lambda>data.
        (case (case results data of Some xs \<Rightarrow> xs | None \<Rightarrow> []) of
           [] \<Rightarrow> ret ''No fresh market news found.''
         | r # rs \<Rightarrow> bind_io (news_lines (r # rs)) (\<lambda>lines. ret (join nl lines)))))))
       (\<lambda>e. ret (''Error fetching news: '' @ e))"

section \<open>Configuration\<close>

record config =
  GROQ_API_KEY :: "string option"
  TAVILY_API_KEY :: "string option"
  TELEGRAM_BOT_TOKEN :: "string option"
  TELEGRAM_CHAT_ID :: "string option"

text \<open>
  Lines 21 to 27, run when the module is loaded: the four values are read from the
  environment, and \<^verbatim>\<open>os.environ["GROQ_API_KEY"] = GROQ_API_KEY\<close> raises \<^verbatim>\<open>TypeError\<close> when
  the value is \<^verbatim>\<open>None\<close>.
\<close>

definition module_load :: "(string \<rightharpoonup> string) \<Rightarrow> config io" where
  "module_load environ =
     (let cfg = \<lparr>GROQ_API_KEY = environ ''GROQ_API_KEY'',
                 TAVILY_API_KEY = environ ''TAVILY_API_KEY'',
                 TELEGRAM_BOT_TOKEN = environ ''TELEGRAM_BOT_TOKEN'',
                 TELEGRAM_CHAT_ID = environ ''TELEGRAM_CHAT_ID''\<rparr>
      in case GROQ_API_KEY cfg of
           None \<Rightarrow> raise ''str expected, not NoneType''
         | Some v \<Rightarrow> bind_io (emit (SetEnv ''GROQ_API_KEY'' v)) (\<lambda>_. ret cfg))"

text \<open>\<^verbatim>\<open>not val\<close> for a value that is \<^verbatim>\<open>None\<close> or a string.\<close>

definition not_val :: "string option \<Rightarrow> bool" where
  "not_val val = (case val of None \<Rightarrow> True | Some s \<Rightarrow> s = [])"

definition required_vars :: "config \<Rightarrow> (string \<times> string option) list" where
  "required_vars cfg =
     [(''GROQ_API_KEY'', GROQ_API_KEY cfg),
      (''TAVILY_API_KEY'', TAVILY_API_KEY cfg),
      (''TELEGRAM_BOT_TOKEN'', TELEGRAM_BOT_TOKEN cfg),
      (''TELEGRAM_CHAT_ID'', TELEGRAM_CHAT_ID cfg)]"

definition missing_vars :: "config \<Rightarrow> string list" where
  "missing_vars cfg = map fst (filter (\<lambda>(v, val). not_val val) (required_vars cfg))"

definition validate_environment :: "config \<Rightarrow> bool io" where
  "validate_environment cfg =
     (let missing = missing_vars cfg in
      if missing \<noteq> [] then
        bind_io (emit (LogError (''Missing required environment variables: '' @ join '', '' missing)))
          (\<lambda>_. ret False)
      else ret True)"

section \<open>The entry point\<close>

text \<open>
  Everything outside the program that a run of \<^verbatim>\<open>main\<close> meets. \<^verbatim>\<open>crew.kickoff()\<close> is
  library code: of it the program observes the calls that the send agent makes of its one
  tool, \<^verbatim>\<open>telegram_sender_tool\<close> (each with its text and the outcome of its post), and
  whether the call returns a result or raises. The other fields are the outcomes of the
  fallback's search post, of the completion calls (by prompt and attempt) and of the
  direct Telegram post (by text), and the formatted elapsed time, date and time.
\<close>

record world =
  kickoff_sends :: "(string \<times> unit response outcome) list"
  kickoff_result :: "string outcome"
  elapsed :: string
  search_post :: "search_data response outcome"
  completion_of :: "string \<Rightarrow> nat \<Rightarrow> completion_result"
  direct_post :: "string \<Rightarrow> unit response outcome"
  today :: string
  now :: string

definition send_stage_events :: "(string \<times> unit response outcome) list \<Rightarrow> event list" where
  "send_stage_events sends =
     concat (map (\<lambda>(message, post). snd (telegram_sender_tool post message)) sends)"

definition crew_kickoff :: "world \<Rightarrow> string io" where
  "crew_kickoff w =
     after (Kickoff # send_stage_events (kickoff_sends w))
       (case kickoff_result w of Raises e \<Rightarrow> raise e | Returns result \<Rightarrow> ret result)"

text \<open>The f-string of lines 337 to 342.\<close>

definition fallback_message :: "world \<Rightarrow> string \<Rightarrow> string" where
  "fallback_message w summary =
     bar_chart @ '' **US Market Wrap - Fallback ('' @ today w @ '')** '' @ bar_chart @ nl
     @ nl @ summary @ nl
     @ nl @ clock_face @ '' Generated: '' @ now w @ '' EST'' @ nl"

text \<open>Lines 334 to 345, the body of the inner \<^verbatim>\<open>try\<close>.\<close>

definition fallback :: "world \<Rightarrow> unit io" where
  "fallback w =
     bind_io (emit (LogInfo (arrows @ '' Attempting fallback execution...''))) (\<lambda>_.
     bind_io (fetch_market_news (search_post w)) (\<lambda>news.
     bind_io (generate_market_wrap (completion_of w) news) (\<lambda>summary.
     bind_io (send_to_telegram_direct (direct_post w (fallback_message w summary))
                (fallback_message w summary)) (\<lambda>telegram_result.
     bind_io (emit (LogInfo (''Fallback execution result: '' @ telegram_result))) (\<lambda>_.
     emit (Print (arrows @ '' Fallback completed: '' @ telegram_result)))))))"

definition main :: "world \<Rightarrow> config \<Rightarrow> string option io" where
  "main w cfg =
     bind_io (emit (LogInfo (rocket @ '' Starting CrewAI Financial Market Wrap Workflow...''))) (\<lambda>_.
     bind_io (validate_environment cfg) (\<lambda>ok.
     if \<not> ok then
       bind_io (emit (Print (cross_mark @ '' Environment validation failed. Please check your .env file.'')))
         (\<lambda>_. ret None)
     else
       bind_io (emit (SetEnv ''CREWAI_DISABLE_TELEMETRY'' ''true'')) (\<lambda>_.
       try_except
         (bind_io (emit (LogInfo (robot @ '' Executing CrewAI workflow...''))) (\<lambda>_.
          bind_io (crew_kickoff w) (\<lambda>result.
          bind_io (emit (LogInfo (check_mark @ '' Workflow completed in '' @ elapsed w @ '' seconds''))) (\<lambda>_.
          bind_io (emit (Print (nl @ party @ '' CREWAI FINANCIAL MARKET WRAP - COMPLETE''))) (\<lambda>_.
          bind_io (emit (Print (replicate 80 (CHR ''='')))) (\<lambda>_.
          bind_io (emit (Print result)) (\<lambda>_.
          bind_io (emit (Print (replicate 80 (CHR ''='')))) (\<lambda>_.
          ret (Some result)))))))))
         (\<lambda>e.
          bind_io (emit (LogError (cross_mark @ '' Workflow failed: '' @ e))) (\<lambda>_.
          bind_io (emit (Print (nl @ wrench @ '' Workflow Error: '' @ e))) (\<lambda>_.
          bind_io
            (try_except (fallback w)
               (\<lambda>fb_error.
                  bind_io (emit (LogError (cross_mark @ '' Fallback failed: '' @ fb_error))) (\<lambda>_.
                  emit (Print (cross_mark @ '' Complete system failure: '' @ fb_error)))))
            (\<lambda>_. ret None)))))))"

text \<open>Running the file as a script: the module is loaded, then \<^verbatim>\<open>main()\<close> runs.\<close>

definition program :: "(string \<rightharpoonup> string) \<Rightarrow> world \<Rightarrow> unit io" where
  "program environ w =
     bind_io (module_load environ) (\<lambda>cfg.
     bind_io (main w cfg) (\<lambda>_. ret ()))"

text \<open>Observations on a run of the entry point.\<close>

fun tool_sends :: "event list \<Rightarrow> nat" where
  "tool_sends [] = 0"
| "tool_sends (TelegramPost _ (Some _) # evs) = Suc (tool_sends evs)"
| "tool_sends (_ # evs) = tool_sends evs"

fun direct_sends :: "event list \<Rightarrow> nat" where
  "direct_sends [] = 0"
| "direct_sends (TelegramPost _ None # evs) = Suc (direct_sends evs)"
| "direct_sends (_ # evs) = direct_sends evs"

fun is_external_call :: "event \<Rightarrow> bool" where
  "is_external_call (CompletionCall _) = True"
| "is_external_call (TavilyPost _ _ _) = True"
| "is_external_call (TelegramPost _ _) = True"
| "is_external_call Kickoff = True"
| "is_external_call _ = False"

fun is_total_failure_report :: "event \<Rightarrow> bool" where
  "is_total_failure_report (Print s) = prefix (cross_mark @ '' Complete system failure: '') s"
| "is_total_failure_report _ = False"

definition total_failure_reports :: "event list \<Rightarrow> nat" where
  "total_failure_reports tr = length (filter is_total_failure_report tr)"

fun is_missing_report :: "event \<Rightarrow> bool" where
  "is_missing_report (LogError s) = prefix ''Missing required environment variables: '' s"
| "is_missing_report _ = False"

definition missing_reports :: "event list \<Rightarrow> nat" where
  "missing_reports tr = length (filter is_missing_report tr)"

text \<open>The text of the exception that a post and its status check raise, if any.\<close>

definition post_error :: "'a response outcome \<Rightarrow> string option" where
  "post_error post = (case post of Raises e \<Rightarrow> Some e | Returns response \<Rightarrow> http_error response)"

text \<open>The values of \<^verbatim>\<open>news\<close> and \<^verbatim>\<open>summary\<close> in a run of the fallback.\<close>

definition fallback_news :: "world \<Rightarrow> string" where
  "fallback_news w = (case fst (fetch_market_news (search_post w)) of Inr news \<Rightarrow> news | Inl e \<Rightarrow> e)"

definition fallback_summary :: "world \<Rightarrow> string" where
  "fallback_summary w =
     (case fst (generate_market_wrap (completion_of w) (fallback_news w)) of
        Inr summary \<Rightarrow> summary | Inl e \<Rightarrow> e)"

text \<open>What \<open>send_to_telegram_direct\<close> returns for an outcome of its post.\<close>

definition telegram_result_of :: "unit response outcome \<Rightarrow> string" where
  "telegram_result_of post =
     (case post_error post of
        None \<Rightarrow> ''Message sent successfully''
      | Some e \<Rightarrow> ''Error sending Telegram message: '' @ e)"

text \<open>The articles of a \<^verbatim>\<open>formatted_results\<close> dictionary, the results of a response body,
  the digest line of one result, and the number of results whose line occurs in a digest.\<close>

definition news_articles :: "(string \<times> obj list) list \<Rightarrow> obj list" where
  "news_articles formatted = (case map_of formatted ''news_articles'' of Some xs \<Rightarrow> xs | None \<Rightarrow> [])"

definition results_of :: "search_data \<Rightarrow> obj list" where
  "results_of data = (case results data of Some xs \<Rightarrow> xs | None \<Rightarrow> [])"

definition article_of :: "obj \<Rightarrow> obj" where
  "article_of r =
     [(''title'', dict_get r ''title'' []),
      (''content'', dict_get r ''content'' []),
      (''url'', dict_get r ''url'' []),
      (''published_date'', dict_get r ''published_date'' [])]"

definition line_of :: "obj \<Rightarrow> string" where
  "line_of r = ''- '' @ dict_get r ''title'' [] @ '': '' @ dict_get r ''url'' []"

fun has_title_and_url :: "obj list \<Rightarrow> bool" where
  "has_title_and_url [] = True"
| "has_title_and_url (r # rs) =
     (map_of r ''title'' \<noteq> None \<and> map_of r ''url'' \<noteq> None \<and> has_title_and_url rs)"

fun results_in_digest :: "obj list \<Rightarrow> string \<Rightarrow> nat" where
  "results_in_digest [] digest = 0"
| "results_in_digest (r # rs) digest =
     (if str_in (line_of r) digest then Suc (results_in_digest rs digest)
      else results_in_digest rs digest)"

subsection \<open>Concrete inputs\<close>

definition ok_response :: "unit response" where
  "ok_response = \<lparr>http_error = None, json = Returns ()\<rparr>"

definition five_results :: "obj list" where
  "five_results =
     [[(''title'', ''A''), (''url'', ''u1'')],
      [(''title'', ''B''), (''url'', ''u2'')],
      [(''title'', ''C''), (''url'', ''u3'')],
      [(''title'', ''D''), (''url'', ''u4'')],
      [(''title'', ''E''), (''url'', ''u5'')]]"

definition five_result_response :: "search_data response" where
  "five_result_response =
     \<lparr>http_error = None, json = Returns \<lparr>results = Some five_results, images = None\<rparr>\<rparr>"

definition complete_config :: config where
  "complete_config =
     \<lparr>GROQ_API_KEY = Some ''gsk-1'', TAVILY_API_KEY = Some ''tvly-1'',
      TELEGRAM_BOT_TOKEN = Some ''123:abc'', TELEGRAM_CHAT_ID = Some ''@channel''\<rparr>"

definition environ_without_groq_key :: "string \<rightharpoonup> string" where
  "environ_without_groq_key =
     [''TAVILY_API_KEY'' \<mapsto> ''tvly-1'', ''TELEGRAM_BOT_TOKEN'' \<mapsto> ''123:abc'',
      ''TELEGRAM_CHAT_ID'' \<mapsto> ''@channel'']"

definition always_raises :: "string \<Rightarrow> string \<Rightarrow> nat \<Rightarrow> completion_result" where
  "always_raises e prompt i = Raises e"

definition post_refused :: "string \<Rightarrow> unit response outcome" where
  "post_refused message = Raises ''Connection refused''"

definition post_accepted :: "string \<Rightarrow> unit response outcome" where
  "post_accepted message = Returns ok_response"

text \<open>The send stage has called its tool once, then \<^verbatim>\<open>kickoff\<close> raises; the fallback's
  collaborators answer.\<close>

definition world_sent_then_raised :: world where
  "world_sent_then_raised =
     \<lparr>kickoff_sends = [(''Market wrap'', Returns ok_response)],
      kickoff_result = Raises ''RateLimitError'',
      elapsed = ''0.00'',
      search_post = Returns five_result_response,
      completion_of = always_raises ''Invalid API Key'',
      direct_post = post_accepted,
      today = ''2025-01-02'',
      now = ''2025-01-02 16:00:00''\<rparr>"

text \<open>\<^verbatim>\<open>kickoff\<close> raises before any send, and every collaborator of the fallback fails.\<close>

definition world_all_fail :: world where
  "world_all_fail =
     \<lparr>kickoff_sends = [],
      kickoff_result = Raises ''RateLimitError'',
      elapsed = ''0.00'',
      search_post = Raises ''Read timed out'',
      completion_of = always_raises ''Invalid API Key'',
      direct_post = post_refused,
      today = ''2025-01-02'',
      now = ''2025-01-02 16:00:00''\<rparr>"

text \<open>
  The status check of the \<^verbatim>\<open>requests\<close> library, \<^verbatim>\<open>Response.raise_for_status()\<close>: it
  raises \<^verbatim>\<open>HTTPError\<close> for a status code from 400 to 499 (client error) and from 500 to 599
  (server error), with the text below, and returns for every other status code.
\<close>

definition http_error_msg :: "nat \<Rightarrow> string \<Rightarrow> string \<Rightarrow> string option" where
  "http_error_msg status_code reason url =
     (if 400 \<le> status_code \<and> status_code < 500 then
        Some (str_nat status_code @ '' Client Error: '' @ reason @ '' for url: '' @ url)
      else if 500 \<le> status_code \<and> status_code < 600 then
        Some (str_nat status_code @ '' Server Error: '' @ reason @ '' for url: '' @ url)
      else None)"

text \<open>
  What the service does to a post: a transport error with its text, or an HTTP reply
  with its status code and reason. \<open>post_outcome\<close> is the outcome of \<^verbatim>\<open>requests.post\<close> for it,
  for the given url and decoded body.
\<close>

datatype reply = TransportError string | Reply nat string

definition post_outcome :: "string \<Rightarrow> 'a outcome \<Rightarrow> reply \<Rightarrow> 'a response outcome" where
  "post_outcome url body r =
     (case r of
        TransportError e \<Rightarrow> Raises e
      | Reply status_code reason \<Rightarrow>
          Returns \<lparr>http_error = http_error_msg status_code reason url, json = body\<rparr>)"

text \<open>Whether a computation returns a string that begins with the error mark of
  \<open>telegram_sender_tool\<close>.\<close>

definition returns_error_string :: "string io \<Rightarrow> bool" where
  "returns_error_string m =
     (case fst m of
        Inr s \<Rightarrow> prefix (cross_mark @ '' Error sending to Telegram:'') s
      | Inl e \<Rightarrow> False)"


section \<open>Properties of the retry-aware language-model caller\<close>

lemma sleeps_append: "sleeps (xs @ ys) = sleeps xs @ sleeps ys"
  by (induction xs rule: sleeps.induct) simp_all

lemma completion_calls_append:
  "completion_calls (xs @ ys) = completion_calls xs + completion_calls ys"
  by (induction xs rule: completion_calls.induct) simp_all

lemma fst_after: "fst (after evs m) = fst m"
  by (simp add: after_def split: prod.splits)

lemma snd_after: "snd (after evs m) = evs @ snd m"
  by (simp add: after_def split: prod.splits)

lemma str_in_sublist: "str_in needle hay = sublist needle hay"
  by (induction hay) (simp_all add: sublist_Cons_right)

lemma rate_limit_is_limit:
  assumes "str_in ''rate limit'' s"
  shows "str_in ''limit'' s"
proof -
  have inner: "sublist ''limit'' ''rate limit''"
    by code_simp
  from assms have outer: "sublist ''rate limit'' s"
    by (simp only: str_in_sublist)
  from inner outer have "sublist ''limit'' s"
    by (rule sublist_order.order.trans)
  then show ?thesis
    by (simp only: str_in_sublist)
qed

lemma loop_rate_limit_step:
  assumes "i < retries" "c p i = Raises e" "str_in ''limit'' (lower e)"
  shows "attempt_loop c p i =
           after [CompletionCall p,
                  LogInfo (''Rate limit reached, waiting '' @ str_nat ((i + 1) * 15) @ '' seconds...''),
                  Sleep ((i + 1) * 15)]
             (attempt_loop c p (i + 1))"
  using assms by (simp add: attempt_loop.simps [of c p i] first_content_def)

lemma loop_server_error_step:
  assumes "i < retries" "c p i = Raises e" "\<not> str_in ''limit'' (lower e)"
    "str_in ''internal server error'' (lower e)"
  shows "attempt_loop c p i =
           after [CompletionCall p,
                  LogInfo (''Groq server error, waiting '' @ str_nat ((i + 1) * 10) @ '' seconds...''),
                  Sleep ((i + 1) * 10)]
             (attempt_loop c p (i + 1))"
  using assms rate_limit_is_limit [of "lower e"]
  by (auto simp add: attempt_loop.simps [of c p i] first_content_def)

lemma loop_transient_fst:
  assumes "i < retries" "c p i = Raises e"
    "str_in ''limit'' (lower e) \<or> str_in ''internal server error'' (lower e)"
  shows "fst (attempt_loop c p i) = fst (attempt_loop c p (i + 1))"
proof (cases "str_in ''limit'' (lower e)")
  case True
  show ?thesis using loop_rate_limit_step [of i c p e] assms(1,2) True by (simp add: fst_after)
next
  case False
  with assms(3) have "str_in ''internal server error'' (lower e)" by simp
  with loop_server_error_step [of i c p e] assms(1,2) False show ?thesis by (simp add: fst_after)
qed

lemma loop_exhausted: "attempt_loop c p retries = (Inr ''Rate limit exceeded or LLM error after retries.'', [])"
  by (simp add: attempt_loop.simps [of c p retries])

lemma loop_rate_limit_obs:
  assumes "i < retries" "c p i = Raises e" "str_in ''limit'' (lower e)"
  shows "fst (attempt_loop c p i) = fst (attempt_loop c p (Suc i))"
    and "sleeps (snd (attempt_loop c p i)) = (i + 1) * 15 # sleeps (snd (attempt_loop c p (Suc i)))"
    and "completion_calls (snd (attempt_loop c p i)) = Suc (completion_calls (snd (attempt_loop c p (Suc i))))"
  using loop_rate_limit_step [of i c p e] assms
  by (simp_all add: fst_after snd_after)

lemma loop_calls: "completion_calls (snd (attempt_loop c p i)) \<le> retries - i"
proof (induction c p i rule: attempt_loop.induct)
  case (1 c p i)
  show ?case
  proof (cases "i < retries")
    case False
    then show ?thesis by (simp add: attempt_loop.simps [of c p i])
  next
    case True
    then show ?thesis
      using "1.IH"
      by (subst attempt_loop.simps)
         (auto simp: snd_after completion_calls_append split: sum.splits)
  qed
qed

lemma loop_sleeps_each:
  "n \<in> set (sleeps (snd (attempt_loop c p i))) \<Longrightarrow> n \<le> retries * 15"
proof (induction c p i rule: attempt_loop.induct)
  case (1 c p i)
  show ?case
  proof (cases "i < retries")
    case False
    with "1.prems" show ?thesis by (simp add: attempt_loop.simps [of c p i])
  next
    case True
    then show ?thesis
      using "1.IH" "1.prems"
      by (subst (asm) attempt_loop.simps)
         (auto simp: snd_after sleeps_append split: sum.splits if_splits)
  qed
qed

lemma loop_sleeps_sum:
  "sum_list (sleeps (snd (attempt_loop c p i))) + (\<Sum>j = 0..<i. (j + 1) * 15)
     \<le> (\<Sum>j = 0..<max i retries. (j + 1) * 15)"
proof (induction c p i rule: attempt_loop.induct)
  case (1 c p i)
  show ?case
  proof (cases "i < retries")
    case False
    then show ?thesis by (simp add: attempt_loop.simps [of c p i] max_def)
  next
    case True
    then have m: "max i retries = max (i + 1) retries"
      by simp
    have le: "(\<Sum>j = 0..<i. (j + 1) * 15) \<le> (\<Sum>j = 0..<max i retries. (j + 1) * 15)"
      by (rule sum_mono2) auto
    show ?thesis
    proof (cases "first_content (c p i)")
      case (Inr content)
      with True le show ?thesis
        by (simp add: attempt_loop.simps [of c p i])
    next
      case (Inl e)
      consider (a) "str_in ''rate limit'' (lower e) \<or> str_in ''limit'' (lower e)"
        | (b) "\<not> (str_in ''rate limit'' (lower e) \<or> str_in ''limit'' (lower e))"
              "str_in ''internal server error'' (lower e)"
        | (c) "\<not> (str_in ''rate limit'' (lower e) \<or> str_in ''limit'' (lower e))"
              "\<not> str_in ''internal server error'' (lower e)"
        by blast
      then show ?thesis
      proof cases
        case a
        have "sum_list (sleeps (snd (attempt_loop c p i)))
                = (i + 1) * 15 + sum_list (sleeps (snd (attempt_loop c p (i + 1))))"
          using True Inl a by (simp add: attempt_loop.simps [of c p i] snd_after sleeps_append)
        with "1.IH"(1) [OF True Inl a] m show ?thesis by simp
      next
        case b
        have "sum_list (sleeps (snd (attempt_loop c p i)))
                = (i + 1) * 10 + sum_list (sleeps (snd (attempt_loop c p (i + 1))))"
          using True Inl b by (simp add: attempt_loop.simps [of c p i] snd_after sleeps_append)
        with "1.IH"(2) [OF True Inl b] m show ?thesis by simp
      next
        case c
        with True Inl le show ?thesis
          by (simp add: attempt_loop.simps [of c p i])
      qed
    qed
  qed
qed

text \<open>
  Claim C2. Whatever the language-model collaborator answers, \<open>generate_market_wrap\<close> issues
  at most 3 completion calls, no single backoff sleep is longer than 45 seconds, and the
  sleeps add up to at most 15 + 30 + 45 = 90 seconds.
\<close>

theorem C2_bounded_calls_and_sleeps:
  "completion_calls (snd (generate_market_wrap c news)) \<le> 3
   \<and> (\<forall>n \<in> set (sleeps (snd (generate_market_wrap c news))). n \<le> 45)
   \<and> sum_list (sleeps (snd (generate_market_wrap c news))) \<le> 90"
proof -
  let ?tr = "snd (attempt_loop c (make_prompt news) 0)"
  have calls: "completion_calls ?tr \<le> 3"
    using loop_calls [of c "make_prompt news" 0] by (simp add: retries_def)
  have each: "\<forall>n \<in> set (sleeps ?tr). n \<le> 45"
    using loop_sleeps_each [of _ c "make_prompt news" 0] by (simp add: retries_def)
  have "(\<Sum>j = 0..<max 0 retries. (j + 1) * 15) = (90::nat)"
    by (simp add: retries_def numeral_3_eq_3)
  with loop_sleeps_sum [of c "make_prompt news" 0] have total: "sum_list (sleeps ?tr) \<le> 90"
    by simp
  from calls each total show ?thesis
    by (simp add: generate_market_wrap_def)
qed


theorem C2_bounded_calls_and_sleeps_witness:
  "45 \<in> set (sleeps (snd (generate_market_wrap (\<lambda>p i. Raises ''Rate limit reached'') ''news'')))
   \<and> (45::nat) \<le> 45
   \<and> completion_calls (snd (generate_market_wrap (\<lambda>p i. Raises ''Rate limit reached'') ''news'')) \<le> 3
   \<and> sum_list (sleeps (snd (generate_market_wrap (\<lambda>p i. Raises ''Rate limit reached'') ''news''))) \<le> 90"
proof -
  have h: "45 \<in> set (sleeps (snd (generate_market_wrap (\<lambda>p i. Raises ''Rate limit reached'') ''news'')))"
    by code_simp
  show ?thesis
    using h C2_bounded_calls_and_sleeps [of "\<lambda>p i. Raises ''Rate limit reached''" "''news''"]
    by blast
qed

text \<open>
  Claim C3. If the first completion call raises an error whose lowered message contains
  neither "limit" nor "internal server error", \<open>generate_market_wrap\<close> returns (it does not
  raise) the string "Error generating summary: " followed by the message, after exactly
  one completion call and without sleeping.
\<close>

theorem C3_non_transient_returns_at_once:
  assumes "c (make_prompt news) 0 = Raises e"
    and "\<not> str_in ''limit'' (lower e)"
    and "\<not> str_in ''internal server error'' (lower e)"
  shows "generate_market_wrap c news =
           (Inr (''Error generating summary: '' @ e),
            [CompletionCall (make_prompt news), LogError (''LLM Error: '' @ e)])
         \<and> completion_calls (snd (generate_market_wrap c news)) = 1
         \<and> sleeps (snd (generate_market_wrap c news)) = []"
  using assms rate_limit_is_limit [of "lower e"]
  by (auto simp add: generate_market_wrap_def attempt_loop.simps [of c _ 0] first_content_def retries_def)


theorem C3_non_transient_returns_at_once_witness:
  "(\<lambda>p i. Raises ''Invalid API Key'') (make_prompt ''news'') (0::nat) = Raises ''Invalid API Key''
   \<and> \<not> str_in ''limit'' (lower ''Invalid API Key'')
   \<and> \<not> str_in ''internal server error'' (lower ''Invalid API Key'')
   \<and> generate_market_wrap (\<lambda>p i. Raises ''Invalid API Key'') ''news'' =
         (Inr (''Error generating summary: '' @ ''Invalid API Key''),
          [CompletionCall (make_prompt ''news''), LogError (''LLM Error: '' @ ''Invalid API Key'')])
   \<and> completion_calls (snd (generate_market_wrap (\<lambda>p i. Raises ''Invalid API Key'') ''news'')) = 1
   \<and> sleeps (snd (generate_market_wrap (\<lambda>p i. Raises ''Invalid API Key'') ''news'')) = []"
proof -
  have h1: "(\<lambda>p i. Raises ''Invalid API Key'') (make_prompt ''news'') (0::nat) = Raises ''Invalid API Key''"
    by simp
  have h2: "\<not> str_in ''limit'' (lower ''Invalid API Key'')"
    by code_simp
  have h3: "\<not> str_in ''internal server error'' (lower ''Invalid API Key'')"
    by code_simp
  show ?thesis
    using h2 h3 C3_non_transient_returns_at_once [OF h1 h2 h3]
    by simp
qed

text \<open>
  Claim C4. If each of the three completion calls raises a transient error (its lowered
  message contains "limit" or "internal server error"), \<open>generate_market_wrap\<close> returns the
  fixed string "Rate limit exceeded or LLM error after retries." and does not raise.
\<close>

theorem C4_exhausted_returns_sentinel:
  assumes "\<forall>i<3. \<exists>e. c (make_prompt news) i = Raises e \<and>
             (str_in ''limit'' (lower e) \<or> str_in ''internal server error'' (lower e))"
  shows "fst (generate_market_wrap c news) = Inr ''Rate limit exceeded or LLM error after retries.''"
proof -
  let ?p = "make_prompt news"
  have step: "fst (attempt_loop c ?p i) = fst (attempt_loop c ?p (i + 1))" if "i < 3" for i
  proof -
    from assms that obtain e where "c ?p i = Raises e"
      "str_in ''limit'' (lower e) \<or> str_in ''internal server error'' (lower e)" by blast
    with that loop_transient_fst [of i c ?p e] show ?thesis by (simp add: retries_def)
  qed
  have "fst (attempt_loop c ?p 0) = fst (attempt_loop c ?p (Suc 0))" using step [of 0] by simp
  also have "\<dots> = fst (attempt_loop c ?p (Suc (Suc 0)))" using step [of "Suc 0"] by simp
  also have "\<dots> = fst (attempt_loop c ?p (Suc (Suc (Suc 0))))" using step [of "Suc (Suc 0)"] by simp
  also have "\<dots> = Inr ''Rate limit exceeded or LLM error after retries.''"
    using loop_exhausted [of c ?p] by (simp add: retries_def numeral_3_eq_3)
  finally show ?thesis by (simp add: generate_market_wrap_def)
qed


theorem C4_exhausted_returns_sentinel_witness:
  "(\<lambda>p i. Raises ''Internal Server Error'') (make_prompt ''news'') (0::nat) = Raises ''Internal Server Error''
   \<and> (\<lambda>p i. Raises ''Internal Server Error'') (make_prompt ''news'') (1::nat) = Raises ''Internal Server Error''
   \<and> (\<lambda>p i. Raises ''Internal Server Error'') (make_prompt ''news'') (2::nat) = Raises ''Internal Server Error''
   \<and> str_in ''internal server error'' (lower ''Internal Server Error'')
   \<and> fst (generate_market_wrap (\<lambda>p i. Raises ''Internal Server Error'') ''news'')
       = Inr ''Rate limit exceeded or LLM error after retries.''"
proof -
  have t: "str_in ''internal server error'' (lower ''Internal Server Error'')"
    by code_simp
  have h: "\<forall>i<3. \<exists>e. (\<lambda>p i. Raises ''Internal Server Error'') (make_prompt ''news'') (i::nat) = Raises e \<and>
       (str_in ''limit'' (lower e) \<or> str_in ''internal server error'' (lower e))"
    using t by simp
  show ?thesis
    using t C4_exhausted_returns_sentinel [OF h]
    by simp
qed

text \<open>
  Claim C5. If the first and the second completion call raise an error whose lowered
  message contains "limit" and the third call returns a text, \<open>generate_market_wrap\<close>
  returns that text, having slept 15 and then 30 seconds, 45 seconds in all (the wait is
  15 times the number of the attempt, counted from 1).
\<close>

theorem C5_two_rate_limits_then_success:
  assumes "c (make_prompt news) 0 = Raises e1" "str_in ''limit'' (lower e1)"
    and "c (make_prompt news) 1 = Raises e2" "str_in ''limit'' (lower e2)"
    and "c (make_prompt news) 2 = Returns (text # rest)"
  shows "fst (generate_market_wrap c news) = Inr text
         \<and> sleeps (snd (generate_market_wrap c news)) = [15, 30]
         \<and> sum_list (sleeps (snd (generate_market_wrap c news))) = 45
         \<and> completion_calls (snd (generate_market_wrap c news)) = 3"
proof -
  let ?p = "make_prompt news"
  have l2: "attempt_loop c ?p (Suc (Suc 0)) = (Inr text, [CompletionCall ?p])"
    using assms(5)
    by (simp add: attempt_loop.simps [of c ?p "Suc (Suc 0)"] first_content_def retries_def numeral_2_eq_2)
  have r0: "0 < retries" and r1: "Suc 0 < retries"
    by (simp_all add: retries_def)
  have a1: "c ?p (Suc 0) = Raises e2"
    using assms(3) by simp
  note o0 = loop_rate_limit_obs [OF r0, of c ?p e1, OF assms(1,2)]
  note o1 = loop_rate_limit_obs [OF r1, of c ?p e2, OF a1 assms(4)]
  have f: "fst (attempt_loop c ?p 0) = Inr text"
    unfolding o0(1) o1(1) l2 by simp
  have s: "sleeps (snd (attempt_loop c ?p 0)) = [15, 30]"
    unfolding o0(2) o1(2) l2 by simp
  have n: "completion_calls (snd (attempt_loop c ?p 0)) = 3"
    unfolding o0(3) o1(3) l2 by simp
  show ?thesis
    unfolding generate_market_wrap_def f s n by simp
qed



theorem C5_two_rate_limits_then_success_witness:
  "(\<lambda>p i. if i < 2 then Raises ''Rate limit exceeded'' else Returns [''Stocks rose today.''])
       (make_prompt ''news'') (0::nat) = Raises ''Rate limit exceeded''
   \<and> str_in ''limit'' (lower ''Rate limit exceeded'')
   \<and> (\<lambda>p i. if i < 2 then Raises ''Rate limit exceeded'' else Returns [''Stocks rose today.''])
       (make_prompt ''news'') (1::nat) = Raises ''Rate limit exceeded''
   \<and> (\<lambda>p i. if i < 2 then Raises ''Rate limit exceeded'' else Returns [''Stocks rose today.''])
       (make_prompt ''news'') (2::nat) = Returns (''Stocks rose today.'' # [])
   \<and> fst (generate_market_wrap
            (\<lambda>p i. if i < 2 then Raises ''Rate limit exceeded'' else Returns [''Stocks rose today.''])
            ''news'') = Inr ''Stocks rose today.''
   \<and> sleeps (snd (generate_market_wrap
            (\<lambda>p i. if i < 2 then Raises ''Rate limit exceeded'' else Returns [''Stocks rose today.''])
            ''news'')) = [15, 30]
   \<and> sum_list (sleeps (snd (generate_market_wrap
            (\<lambda>p i. if i < 2 then Raises ''Rate limit exceeded'' else Returns [''Stocks rose today.''])
            ''news''))) = 45
   \<and> completion_calls (snd (generate_market_wrap
            (\<lambda>p i. if i < 2 then Raises ''Rate limit exceeded'' else Returns [''Stocks rose today.''])
            ''news'')) = 3"
proof -
  let ?c = "\<lambda>(p::string) (i::nat).
              if i < 2 then Raises ''Rate limit exceeded'' else Returns [''Stocks rose today.'']"
  have h0: "?c (make_prompt ''news'') 0 = Raises ''Rate limit exceeded''"
    by simp
  have h1: "?c (make_prompt ''news'') 1 = Raises ''Rate limit exceeded''"
    by simp
  have h2: "?c (make_prompt ''news'') 2 = Returns (''Stocks rose today.'' # [])"
    by simp
  have t: "str_in ''limit'' (lower ''Rate limit exceeded'')"
    by code_simp
  show ?thesis
    using t C5_two_rate_limits_then_success [of ?c "''news''", OF h0 t h1 t h2]
    by simp
qed

text \<open>
  Claim C10. In the error classification of \<open>generate_market_wrap\<close> the test for "limit"
  comes first: at attempt index \<open>i\<close>, an error whose lowered message contains "limit"
  (whether or not it also contains "internal server error", and whatever fault it reports)
  takes the rate-limit branch, so the caller sleeps 15 * (i + 1) seconds and goes on to the
  next attempt; it neither sleeps 10 * (i + 1) seconds nor returns at once.
\<close>

theorem C10_limit_takes_precedence:
  assumes "i < retries" "c p i = Raises e" "str_in ''limit'' (lower e)"
  shows "attempt_loop c p i =
           after [CompletionCall p,
                  LogInfo (''Rate limit reached, waiting '' @ str_nat (15 * (i + 1)) @ '' seconds...''),
                  Sleep (15 * (i + 1))]
             (attempt_loop c p (i + 1))
         \<and> sleeps (snd (attempt_loop c p i)) = 15 * (i + 1) # sleeps (snd (attempt_loop c p (i + 1)))
         \<and> fst (attempt_loop c p i) = fst (attempt_loop c p (i + 1))"
  using loop_rate_limit_step [of i c p e] assms by (simp add: fst_after snd_after mult.commute)


theorem C10_limit_takes_precedence_witness:
  "(1::nat) < retries
   \<and> str_in ''limit'' (lower ''Internal Server Error: context length limit'')
   \<and> str_in ''internal server error'' (lower ''Internal Server Error: context length limit'')
   \<and> sleeps (snd (attempt_loop (\<lambda>p i. Raises ''Internal Server Error: context length limit'') ''p'' 1))
       = 15 * (1 + 1) #
         sleeps (snd (attempt_loop (\<lambda>p i. Raises ''Internal Server Error: context length limit'') ''p'' (1 + 1)))
   \<and> fst (attempt_loop (\<lambda>p i. Raises ''Internal Server Error: context length limit'') ''p'' 1)
       = fst (attempt_loop (\<lambda>p i. Raises ''Internal Server Error: context length limit'') ''p'' (1 + 1))"
proof -
  let ?c = "\<lambda>(p::string) (i::nat). (Raises ''Internal Server Error: context length limit'' :: completion_result)"
  have r: "(1::nat) < retries"
    by (simp add: retries_def)
  have h: "?c ''p'' 1 = Raises ''Internal Server Error: context length limit''"
    by simp
  have t: "str_in ''limit'' (lower ''Internal Server Error: context length limit'')"
    by code_simp
  have u: "str_in ''internal server error'' (lower ''Internal Server Error: context length limit'')"
    by code_simp
  show ?thesis
    using r t u C10_limit_takes_precedence [of 1 ?c "''p''", OF r h t]
    by (elim conjE, intro conjI) assumption+
qed

section \<open>Properties of the tools and of the entry point\<close>

lemma after_pair: "after evs (r, tr) = (r, evs @ tr)"
  by (simp add: after_def)

lemma bind_io_Inr: "bind_io (Inr x, tr) f = after tr (f x)"
  by (simp add: bind_io_def after_def)

lemma bind_io_Inl: "bind_io (Inl e, tr) f = (Inl e, tr)"
  by (simp add: bind_io_def)

lemma try_except_Inr: "try_except (Inr x, tr) h = (Inr x, tr)"
  by (simp add: try_except_def)

lemma try_except_Inl: "try_except (Inl e, tr) h = after tr (h e)"
  by (simp add: try_except_def after_def)

lemmas io_simps =
  after_pair bind_io_Inr bind_io_Inl try_except_Inr try_except_Inl ret_def raise_def emit_def

lemma telegram_sender_tool_eq:
  "telegram_sender_tool post message =
     (case post_error post of
        None \<Rightarrow>
          (Inr (check_mark @ '' Message sent successfully to Telegram channel''),
           [LogInfo ''Sending message to Telegram...'', TelegramPost message (Some ''Markdown'')])
      | Some e \<Rightarrow>
          (Inr (cross_mark @ '' Error sending to Telegram: '' @ e),
           [LogInfo ''Sending message to Telegram...'', TelegramPost message (Some ''Markdown''),
            LogError (''Telegram error: '' @ e)]))"
  by (simp add: telegram_sender_tool_def post_error_def requests_post_def raise_for_status_def
      io_simps split: outcome.splits option.splits)

lemma send_to_telegram_direct_eq:
  "send_to_telegram_direct post message =
     (case post_error post of
        None \<Rightarrow> (Inr ''Message sent successfully'', [TelegramPost message None])
      | Some e \<Rightarrow> (Inr (''Error sending Telegram message: '' @ e), [TelegramPost message None]))"
  by (simp add: send_to_telegram_direct_def post_error_def requests_post_def raise_for_status_def
      io_simps split: outcome.splits option.splits)

lemma after_Nil: "after [] m = m"
  by (simp add: after_def)

lemma news_lines_pure: "\<exists>v. news_lines rs = (v, [])"
proof (induction rs)
  case Nil
  show ?case by (simp add: io_simps)
next
  case (Cons r rs)
  then obtain v where v: "news_lines rs = (v, [])" by blast
  show ?case
    by (cases v)
       (simp_all add: v dict_item_def io_simps after_Nil split: option.splits)
qed

lemma news_lines_complete:
  "has_title_and_url rs \<Longrightarrow> news_lines rs = (Inr (map line_of rs), [])"
  by (induction rs) (auto simp add: dict_item_def dict_get_def line_of_def io_simps)

lemma fetch_market_news_returns:
  "\<exists>news. fetch_market_news post =
     (Inr news,
      [TavilyPost ''today US stock market summary, S&P 500, Nasdaq, Dow Jones, major movers''
         ''advanced'' 3])"
proof (cases post)
  case (Raises e)
  then show ?thesis
    by (simp add: fetch_market_news_def requests_post_def io_simps)
next
  case (Returns response)
  show ?thesis
  proof (cases "http_error response")
    case (Some e)
    with Returns show ?thesis
      by (simp add: fetch_market_news_def requests_post_def raise_for_status_def io_simps)
  next
    case None
    show ?thesis
    proof (cases "json response")
      case (Raises e)
      with Returns None show ?thesis
        by (simp add: fetch_market_news_def requests_post_def raise_for_status_def
            response_json_def io_simps)
    next
      case (Returns data)
      obtain v where v: "news_lines (results_of data) = (v, [])"
        using news_lines_pure by blast
      show ?thesis
      proof (cases "results_of data")
        case Nil
        with \<open>post = Returns response\<close> None Returns show ?thesis
          by (simp add: fetch_market_news_def requests_post_def raise_for_status_def
              response_json_def results_of_def io_simps)
      next
        case (Cons r rs)
        with v have v': "news_lines (r # rs) = (v, [])" by simp
        from \<open>post = Returns response\<close> None Returns Cons show ?thesis
          by (cases v)
             (simp_all add: fetch_market_news_def requests_post_def raise_for_status_def
               response_json_def results_of_def io_simps after_Nil v' del: news_lines.simps)
      qed
    qed
  qed
qed

lemma fetch_market_news_digest:
  assumes "post = Returns response" "http_error response = None" "json response = Returns data"
    and "results_of data = r # rs" "has_title_and_url (r # rs)"
  shows "fetch_market_news post =
     (Inr (join nl (map line_of (r # rs))),
      [TavilyPost ''today US stock market summary, S&P 500, Nasdaq, Dow Jones, major movers''
         ''advanced'' 3])"
  using assms(1-4) news_lines_complete [OF assms(5)]
  by (simp add: fetch_market_news_def requests_post_def raise_for_status_def
      response_json_def results_of_def io_simps after_Nil del: news_lines.simps has_title_and_url.simps)

lemma tavily_search_tool_formats:
  assumes "post = Returns response" "http_error response = None" "json response = Returns data"
  shows "fst (tavily_search_tool json_dumps str_dict post query) = Inr (json_dumps (formatted_results data))"
  using assms
  by (simp add: tavily_search_tool_def Let_def requests_post_def raise_for_status_def
      response_json_def io_simps)

lemma news_articles_formatted:
  "news_articles (formatted_results data) = map article_of (take 3 (results_of data))"
  by (simp add: news_articles_def formatted_results_def results_of_def article_of_def Let_def)


lemma tool_sends_append: "tool_sends (xs @ ys) = tool_sends xs + tool_sends ys"
  by (induction xs rule: tool_sends.induct) simp_all

lemma direct_sends_append: "direct_sends (xs @ ys) = direct_sends xs + direct_sends ys"
  by (induction xs rule: direct_sends.induct) simp_all

lemma total_failure_reports_append:
  "total_failure_reports (xs @ ys) = total_failure_reports xs + total_failure_reports ys"
  by (simp add: total_failure_reports_def)

lemma total_failure_reports_Cons:
  "total_failure_reports (x # xs) = (if is_total_failure_report x then 1 else 0) + total_failure_reports xs"
  by (simp add: total_failure_reports_def)

lemma total_failure_reports_Nil: "total_failure_reports [] = 0"
  by (simp add: total_failure_reports_def)

lemma loop_no_sends:
  "tool_sends (snd (attempt_loop c p i)) = 0 \<and> direct_sends (snd (attempt_loop c p i)) = 0
   \<and> total_failure_reports (snd (attempt_loop c p i)) = 0"
proof (induction c p i rule: attempt_loop.induct)
  case (1 c p i)
  show ?case
  proof (cases "i < retries")
    case False
    then show ?thesis
      by (simp add: attempt_loop.simps [of c p i] total_failure_reports_Nil)
  next
    case True
    then show ?thesis
      using "1.IH"
      by (subst (1 2 3) attempt_loop.simps)
         (auto simp: snd_after tool_sends_append direct_sends_append
            total_failure_reports_append total_failure_reports_Cons total_failure_reports_Nil
            split: sum.splits)
  qed
qed

lemma loop_returns: "\<exists>s. fst (attempt_loop c p i) = Inr s"
proof (induction c p i rule: attempt_loop.induct)
  case (1 c p i)
  show ?case
  proof (cases "i < retries")
    case False
    then show ?thesis by (simp add: attempt_loop.simps [of c p i])
  next
    case True
    then show ?thesis
      using "1.IH"
      by (subst attempt_loop.simps) (auto simp: fst_after split: sum.splits)
  qed
qed

lemma generate_market_wrap_returns:
  "\<exists>summary. generate_market_wrap c news = (Inr summary, snd (generate_market_wrap c news))"
proof -
  obtain s where "fst (attempt_loop c (make_prompt news) 0) = Inr s"
    using loop_returns by blast
  then have "attempt_loop c (make_prompt news) 0 = (Inr s, snd (attempt_loop c (make_prompt news) 0))"
    by (metis prod.collapse)
  then show ?thesis
    unfolding generate_market_wrap_def by blast
qed

lemma generate_market_wrap_no_sends:
  "tool_sends (snd (generate_market_wrap c news)) = 0"
  "direct_sends (snd (generate_market_wrap c news)) = 0"
  "total_failure_reports (snd (generate_market_wrap c news)) = 0"
  using loop_no_sends [of c "make_prompt news" 0]
  by (simp_all add: generate_market_wrap_def)

lemma fallback_eq:
  "fallback w =
     (Inr (),
      LogInfo (arrows @ '' Attempting fallback execution...'') #
      TavilyPost ''today US stock market summary, S&P 500, Nasdaq, Dow Jones, major movers''
        ''advanced'' 3 #
      snd (generate_market_wrap (completion_of w) (fallback_news w)) @
      [TelegramPost (fallback_message w (fallback_summary w)) None,
       LogInfo (''Fallback execution result: ''
                @ telegram_result_of (direct_post w (fallback_message w (fallback_summary w)))),
       Print (arrows @ '' Fallback completed: ''
                @ telegram_result_of (direct_post w (fallback_message w (fallback_summary w))))])"
proof -
  obtain news where n: "fetch_market_news (search_post w) =
     (Inr news,
      [TavilyPost ''today US stock market summary, S&P 500, Nasdaq, Dow Jones, major movers''
         ''advanced'' 3])"
    using fetch_market_news_returns by blast
  then have fn: "fallback_news w = news"
    by (simp add: fallback_news_def)
  obtain summary where g: "generate_market_wrap (completion_of w) news =
      (Inr summary, snd (generate_market_wrap (completion_of w) news))"
    using generate_market_wrap_returns by blast
  then have "fst (generate_market_wrap (completion_of w) news) = Inr summary"
    by (metis fst_conv)
  then have fs: "fallback_summary w = summary"
    by (simp add: fallback_summary_def fn)
  define tr where "tr = snd (generate_market_wrap (completion_of w) news)"
  have g': "generate_market_wrap (completion_of w) news = (Inr summary, tr)"
    unfolding tr_def by (rule g)
  have "fallback w =
     (Inr (),
      LogInfo (arrows @ '' Attempting fallback execution...'') #
      TavilyPost ''today US stock market summary, S&P 500, Nasdaq, Dow Jones, major movers''
        ''advanced'' 3 #
      tr @
      [TelegramPost (fallback_message w summary) None,
       LogInfo (''Fallback execution result: ''
                @ telegram_result_of (direct_post w (fallback_message w summary))),
       Print (arrows @ '' Fallback completed: ''
                @ telegram_result_of (direct_post w (fallback_message w summary)))])"
    by (simp add: fallback_def n g' send_to_telegram_direct_eq telegram_result_of_def io_simps
        split: option.splits)
  then show ?thesis
    by (simp add: fn fs tr_def)
qed

lemma send_stage_counts:
  "tool_sends (send_stage_events sends) = length sends"
  "direct_sends (send_stage_events sends) = 0"
  "total_failure_reports (send_stage_events sends) = 0"
  by (induction sends)
     (auto simp add: send_stage_events_def telegram_sender_tool_eq tool_sends_append
        direct_sends_append total_failure_reports_append total_failure_reports_Cons
        total_failure_reports_Nil split: option.splits)

lemma validate_environment_eq:
  "validate_environment cfg =
     (if missing_vars cfg \<noteq> [] then
        (Inr False,
         [LogError (''Missing required environment variables: '' @ join '', '' (missing_vars cfg))])
      else (Inr True, []))"
  by (simp add: validate_environment_def Let_def io_simps)

lemma main_aborts_on_missing:
  assumes "missing_vars cfg \<noteq> []"
  shows "main w cfg =
     (Inr None,
      [LogInfo (rocket @ '' Starting CrewAI Financial Market Wrap Workflow...''),
       LogError (''Missing required environment variables: '' @ join '', '' (missing_vars cfg)),
       Print (cross_mark @ '' Environment validation failed. Please check your .env file.'')])"
  using assms by (simp add: main_def validate_environment_eq io_simps)

lemma main_kickoff_returned:
  assumes "missing_vars cfg = []" "kickoff_result w = Returns result"
  shows "main w cfg =
     (Inr (Some result),
      [LogInfo (rocket @ '' Starting CrewAI Financial Market Wrap Workflow...''),
       SetEnv ''CREWAI_DISABLE_TELEMETRY'' ''true'',
       LogInfo (robot @ '' Executing CrewAI workflow...''),
       Kickoff] @
      send_stage_events (kickoff_sends w) @
      [LogInfo (check_mark @ '' Workflow completed in '' @ elapsed w @ '' seconds''),
       Print (nl @ party @ '' CREWAI FINANCIAL MARKET WRAP - COMPLETE''),
       Print (replicate 80 (CHR ''='')),
       Print result,
       Print (replicate 80 (CHR ''=''))])"
  using assms
  by (simp add: main_def validate_environment_eq crew_kickoff_def io_simps)

lemma main_kickoff_raised:
  assumes "missing_vars cfg = []" "kickoff_result w = Raises e"
  shows "main w cfg =
     (Inr None,
      [LogInfo (rocket @ '' Starting CrewAI Financial Market Wrap Workflow...''),
       SetEnv ''CREWAI_DISABLE_TELEMETRY'' ''true'',
       LogInfo (robot @ '' Executing CrewAI workflow...''),
       Kickoff] @
      send_stage_events (kickoff_sends w) @
      [LogError (cross_mark @ '' Workflow failed: '' @ e),
       Print (nl @ wrench @ '' Workflow Error: '' @ e),
       LogInfo (arrows @ '' Attempting fallback execution...''),
       TavilyPost ''today US stock market summary, S&P 500, Nasdaq, Dow Jones, major movers''
         ''advanced'' 3] @
      snd (generate_market_wrap (completion_of w) (fallback_news w)) @
      [TelegramPost (fallback_message w (fallback_summary w)) None,
       LogInfo (''Fallback execution result: ''
                @ telegram_result_of (direct_post w (fallback_message w (fallback_summary w)))),
       Print (arrows @ '' Fallback completed: ''
                @ telegram_result_of (direct_post w (fallback_message w (fallback_summary w))))])"
  using assms
  by (simp add: main_def validate_environment_eq crew_kickoff_def fallback_eq io_simps)


lemma complete_config_valid: "missing_vars complete_config = []"
  by (simp add: missing_vars_def required_vars_def complete_config_def not_val_def)

lemma main_send_counts:
  assumes "missing_vars cfg = []"
  shows "tool_sends (snd (main w cfg)) = length (kickoff_sends w)"
    and "direct_sends (snd (main w cfg)) = (case kickoff_result w of Raises e \<Rightarrow> 1 | Returns result \<Rightarrow> 0)"
proof -
  show "tool_sends (snd (main w cfg)) = length (kickoff_sends w)"
  proof (cases "kickoff_result w")
    case (Raises e)
    show ?thesis
      by (simp add: main_kickoff_raised [OF assms Raises] tool_sends_append send_stage_counts
          generate_market_wrap_no_sends)
  next
    case (Returns result)
    show ?thesis
      by (simp add: main_kickoff_returned [OF assms Returns] tool_sends_append send_stage_counts)
  qed
  show "direct_sends (snd (main w cfg)) = (case kickoff_result w of Raises e \<Rightarrow> 1 | Returns result \<Rightarrow> 0)"
  proof (cases "kickoff_result w")
    case (Raises e)
    show ?thesis
      by (simp add: main_kickoff_raised [OF assms Raises] Raises direct_sends_append
          send_stage_counts generate_market_wrap_no_sends)
  next
    case (Returns result)
    show ?thesis
      by (simp add: main_kickoff_returned [OF assms Returns] Returns direct_sends_append
          send_stage_counts)
  qed
qed

lemma main_no_total_failure_report:
  assumes "missing_vars cfg = []" "kickoff_result w = Raises e"
  shows "total_failure_reports (snd (main w cfg)) = 0"
  by (simp add: main_kickoff_raised [OF assms] total_failure_reports_append
      total_failure_reports_Cons total_failure_reports_Nil send_stage_counts
      generate_market_wrap_no_sends cross_mark_def nl_def arrows_def)

text \<open>
  Claim C9, as stated, fails for a status that is not 2xx and not an error status: for a
  reply with status 304 the status check of the library does not raise, and
  \<open>telegram_sender_tool\<close> returns the string of a successful send.
\<close>

theorem C9_status_304_reports_success_counterexample:
  "\<not> (200 \<le> (304::nat) \<and> (304::nat) < 300)
   \<and> fst (telegram_sender_tool
            (post_outcome ''https://api.telegram.org/bot123:abc/sendMessage'' (Returns ())
               (Reply 304 ''Not Modified''))
            ''Market wrap'')
       = Inr (check_mark @ '' Message sent successfully to Telegram channel'')
   \<and> \<not> returns_error_string
          (telegram_sender_tool
            (post_outcome ''https://api.telegram.org/bot123:abc/sendMessage'' (Returns ())
               (Reply 304 ''Not Modified''))
            ''Market wrap'')"
  by code_simp

text \<open>
  Claim C9, amended. For every message and every outcome of the post, \<open>telegram_sender_tool\<close>
  returns a string and never raises. On a transport error, and on a reply whose status
  code is from 400 to 599 (the codes for which the status check raises), the exception is
  caught and the returned string is the cross mark followed by " Error sending to
  Telegram: " and the text of the exception; on a reply with any other status code,
  2xx or not, it returns the string of a successful send. So the returned string begins
  with the error mark exactly for a transport error and for a status from 400 to 599.
\<close>

theorem C9_telegram_sender_tool_never_raises:
  "(\<exists>s. fst (telegram_sender_tool post message) = Inr s)
   \<and> fst (telegram_sender_tool (post_outcome url body (TransportError e)) message)
       = Inr (cross_mark @ '' Error sending to Telegram: '' @ e)
   \<and> fst (telegram_sender_tool (post_outcome url body (Reply status_code reason)) message)
       = Inr (if 400 \<le> status_code \<and> status_code < 500 then
                cross_mark @ '' Error sending to Telegram: '' @ str_nat status_code
                  @ '' Client Error: '' @ reason @ '' for url: '' @ url
              else if 500 \<le> status_code \<and> status_code < 600 then
                cross_mark @ '' Error sending to Telegram: '' @ str_nat status_code
                  @ '' Server Error: '' @ reason @ '' for url: '' @ url
              else check_mark @ '' Message sent successfully to Telegram channel'')
   \<and> returns_error_string (telegram_sender_tool (post_outcome url body r) message)
       = (case r of
            TransportError e \<Rightarrow> True
          | Reply status_code reason \<Rightarrow> 400 \<le> status_code \<and> status_code < 600)"
proof -
  have never: "\<exists>s. fst (telegram_sender_tool post message) = Inr s"
    by (simp add: telegram_sender_tool_eq split: option.splits)
  have transport: "fst (telegram_sender_tool (post_outcome url body (TransportError e)) message)
       = Inr (cross_mark @ '' Error sending to Telegram: '' @ e)"
    by (simp add: telegram_sender_tool_eq post_outcome_def post_error_def)
  have status: "fst (telegram_sender_tool (post_outcome url body (Reply status_code reason)) message)
       = Inr (if 400 \<le> status_code \<and> status_code < 500 then
                cross_mark @ '' Error sending to Telegram: '' @ str_nat status_code
                  @ '' Client Error: '' @ reason @ '' for url: '' @ url
              else if 500 \<le> status_code \<and> status_code < 600 then
                cross_mark @ '' Error sending to Telegram: '' @ str_nat status_code
                  @ '' Server Error: '' @ reason @ '' for url: '' @ url
              else check_mark @ '' Message sent successfully to Telegram channel'')"
    by (simp add: telegram_sender_tool_eq post_outcome_def post_error_def http_error_msg_def)
  have mark: "prefix (cross_mark @ '' Error sending to Telegram:'')
                (cross_mark @ '' Error sending to Telegram: '' @ x)" for x
    by (simp add: cross_mark_def)
  have no_mark: "\<not> prefix (cross_mark @ '' Error sending to Telegram:'')
                (check_mark @ '' Message sent successfully to Telegram channel'')"
    by (simp add: cross_mark_def check_mark_def)
  have begins: "returns_error_string (telegram_sender_tool (post_outcome url body r) message)
       = (case r of
            TransportError e \<Rightarrow> True
          | Reply status_code reason \<Rightarrow> 400 \<le> status_code \<and> status_code < 600)"
  proof (cases r)
    case (TransportError e')
    then show ?thesis
      using mark
      by (simp add: returns_error_string_def telegram_sender_tool_eq post_outcome_def
          post_error_def)
  next
    case (Reply status_code' reason')
    then show ?thesis
      using mark no_mark
      by (auto simp add: returns_error_string_def telegram_sender_tool_eq post_outcome_def
          post_error_def http_error_msg_def)
  qed
  from never transport status begins show ?thesis
    by (intro conjI)
qed

text \<open>
  Claim C7, as stated, fails for the fallback news fetch: for a search response with the
  5 results \<open>five_results\<close>, \<open>fetch_market_news\<close> returns a digest with one line for each of
  the 5 results.
\<close>

theorem C7_fetch_market_news_keeps_all_counterexample:
  "fst (fetch_market_news (Returns five_result_response)) = Inr (join nl (map line_of five_results))
   \<and> length five_results = 5
   \<and> results_in_digest five_results (join nl (map line_of five_results)) = 5"
  by code_simp

text \<open>
  Claim C7, amended. For a search response that is received and decoded: the primary-path
  search tool \<open>tavily_search_tool\<close> returns the serialised \<open>formatted_results\<close>, whose articles
  are those of the first 3 results of the response, so at most 3; the fallback
  \<open>fetch_market_news\<close> does not truncate: when the results are not empty and each has a
  title and a url, its digest has one line for every result of the response (the fetch
  bounds the number only by asking the service for 3 results).
\<close>

theorem C7_top_three_in_search_tool_only:
  assumes "post = Returns response" "http_error response = None" "json response = Returns data"
  shows "fst (tavily_search_tool json_dumps str_dict post query) = Inr (json_dumps (formatted_results data))
         \<and> news_articles (formatted_results data) = map article_of (take 3 (results_of data))
         \<and> length (news_articles (formatted_results data)) \<le> 3
         \<and> (results_of data \<noteq> [] \<and> has_title_and_url (results_of data) \<longrightarrow>
              fst (fetch_market_news post) = Inr (join nl (map line_of (results_of data))))"
proof -
  have fetch: "fst (fetch_market_news post) = Inr (join nl (map line_of (results_of data)))"
    if "results_of data \<noteq> []" "has_title_and_url (results_of data)"
  proof -
    from that(1) obtain r rs where c: "results_of data = r # rs"
      by (cases "results_of data") auto
    with that(2) have "has_title_and_url (r # rs)" by simp
    from fetch_market_news_digest [OF assms c this] c show ?thesis by simp
  qed
  show ?thesis
    using tavily_search_tool_formats [OF assms, of json_dumps str_dict query] fetch
    by (simp add: news_articles_formatted)
qed

theorem C7_top_three_in_search_tool_only_witness:
  "http_error five_result_response = None
   \<and> json five_result_response = Returns \<lparr>results = Some five_results, images = None\<rparr>
   \<and> results_of \<lparr>results = Some five_results, images = None\<rparr> \<noteq> []
   \<and> has_title_and_url (results_of \<lparr>results = Some five_results, images = None\<rparr>)
   \<and> length (news_articles (formatted_results \<lparr>results = Some five_results, images = None\<rparr>)) \<le> 3
   \<and> news_articles (formatted_results \<lparr>results = Some five_results, images = None\<rparr>)
       = map article_of (take 3 (results_of \<lparr>results = Some five_results, images = None\<rparr>))
   \<and> fst (fetch_market_news (Returns five_result_response))
       = Inr (join nl (map line_of (results_of \<lparr>results = Some five_results, images = None\<rparr>)))"
proof -
  have h1: "(Returns five_result_response :: search_data response outcome) = Returns five_result_response"
    by simp
  have h2: "http_error five_result_response = None"
    by (simp add: five_result_response_def)
  have h3: "json five_result_response = Returns \<lparr>results = Some five_results, images = None\<rparr>"
    by (simp add: five_result_response_def)
  have h4: "results_of \<lparr>results = Some five_results, images = None\<rparr> \<noteq> []"
    by (simp add: results_of_def five_results_def)
  have h5: "has_title_and_url (results_of \<lparr>results = Some five_results, images = None\<rparr>)"
    by (simp add: results_of_def five_results_def)
  show ?thesis
    using h2 h3 h4 h5 C7_top_three_in_search_tool_only [OF h1 h2 h3]
    by blast
qed

text \<open>
  Claim C8 holds of \<open>validate_environment\<close> and \<open>main\<close>, but not of the program: when
  \<^verbatim>\<open>GROQ_API_KEY\<close> is not set, loading the module raises \<^verbatim>\<open>TypeError\<close> at line 27, before
  \<open>main\<close> and its validation run, so no list of missing names is logged.
\<close>

theorem C8_unset_groq_key_raises_at_load:
  "program environ_without_groq_key w = (Inl ''str expected, not NoneType'', [])
   \<and> missing_reports (snd (program environ_without_groq_key w)) = 0"
  by (simp add: program_def module_load_def environ_without_groq_key_def Let_def io_simps
      missing_reports_def)

text \<open>
  Claim C6, as stated, fails: in \<open>world_all_fail\<close> the primary pipeline raises and the
  search post, the completion call and the direct Telegram post of the fallback all fail,
  yet the fallback does not raise and no total failure is reported: the news becomes
  "Error fetching news: ...", the summary "Error generating summary: ...", the delivery is
  attempted, and the run ends by printing "Fallback completed: Error sending Telegram
  message: Connection refused".
\<close>

theorem C6_fallback_failure_not_reported_counterexample:
  "fst (main world_all_fail complete_config) = Inr None
   \<and> total_failure_reports (snd (main world_all_fail complete_config)) = 0
   \<and> direct_sends (snd (main world_all_fail complete_config)) = 1
   \<and> fallback_news world_all_fail = ''Error fetching news: Read timed out''
   \<and> fallback_summary world_all_fail = ''Error generating summary: Invalid API Key''
   \<and> last (snd (main world_all_fail complete_config)) =
       Print (arrows @ '' Fallback completed: Error sending Telegram message: Connection refused'')"
  by code_simp

text \<open>
  Claim C6, amended. When the environment is complete and the primary pipeline raises,
  the fallback never raises and "Complete system failure" is never printed, whatever its
  three collaborators do: each step catches its own exception and returns a string that
  the next step uses. The direct send is attempted exactly once, and it is the last
  external call: after it the run only logs and prints "Fallback completed: " followed by
  what \<open>send_to_telegram_direct\<close> returned, which is "Error sending Telegram message: " and
  the text of the exception when the delivery call fails.
\<close>

theorem C6_fallback_completes_with_result_string:
  assumes "missing_vars cfg = []" "kickoff_result w = Raises e"
  shows "fst (main w cfg) = Inr None
         \<and> total_failure_reports (snd (main w cfg)) = 0
         \<and> direct_sends (snd (main w cfg)) = 1
         \<and> (\<exists>pre. snd (main w cfg) =
               pre @
               [TelegramPost (fallback_message w (fallback_summary w)) None,
                LogInfo (''Fallback execution result: '' @
                   (case post_error (direct_post w (fallback_message w (fallback_summary w))) of
                      None \<Rightarrow> ''Message sent successfully''
                    | Some err \<Rightarrow> ''Error sending Telegram message: '' @ err)),
                Print (arrows @ '' Fallback completed: '' @
                   (case post_error (direct_post w (fallback_message w (fallback_summary w))) of
                      None \<Rightarrow> ''Message sent successfully''
                    | Some err \<Rightarrow> ''Error sending Telegram message: '' @ err))])"
proof -
  have returned: "fst (main w cfg) = Inr None"
    by (simp add: main_kickoff_raised [OF assms])
  have count: "direct_sends (snd (main w cfg)) = 1"
    using main_send_counts(2) [OF assms(1), of w] assms(2) by simp
  have shape: "\<exists>pre. snd (main w cfg) =
               pre @
               [TelegramPost (fallback_message w (fallback_summary w)) None,
                LogInfo (''Fallback execution result: '' @
                   (case post_error (direct_post w (fallback_message w (fallback_summary w))) of
                      None \<Rightarrow> ''Message sent successfully''
                    | Some err \<Rightarrow> ''Error sending Telegram message: '' @ err)),
                Print (arrows @ '' Fallback completed: '' @
                   (case post_error (direct_post w (fallback_message w (fallback_summary w))) of
                      None \<Rightarrow> ''Message sent successfully''
                    | Some err \<Rightarrow> ''Error sending Telegram message: '' @ err))]"
    unfolding main_kickoff_raised [OF assms] telegram_result_of_def snd_conv
    by (metis append.assoc)
  from returned main_no_total_failure_report [OF assms] count shape show ?thesis
    by blast
qed

theorem C6_fallback_completes_with_result_string_witness:
  "missing_vars complete_config = []
   \<and> kickoff_result world_sent_then_raised = Raises ''RateLimitError''
   \<and> fst (main world_sent_then_raised complete_config) = Inr None
   \<and> total_failure_reports (snd (main world_sent_then_raised complete_config)) = 0
   \<and> direct_sends (snd (main world_sent_then_raised complete_config)) = 1"
proof -
  have h: "kickoff_result world_sent_then_raised = Raises ''RateLimitError''"
    by (simp add: world_sent_then_raised_def)
  show ?thesis
    using complete_config_valid h
      C6_fallback_completes_with_result_string [OF complete_config_valid h]
    by blast
qed

text \<open>
  Claim C1, as stated, fails: in \<open>world_sent_then_raised\<close> the send stage of the primary
  pipeline has attempted its delivery and the pipeline then raises; the fallback runs and
  attempts its direct send, so both attempts occur in one invocation.
\<close>

theorem C1_both_deliveries_counterexample:
  "tool_sends (snd (main world_sent_then_raised complete_config)) = 1
   \<and> direct_sends (snd (main world_sent_then_raised complete_config)) = 1"
  by code_simp

text \<open>
  Claim C1, amended. In every invocation with a complete environment, the delivery
  attempts of the primary path are exactly those that \<^verbatim>\<open>crew.kickoff()\<close> makes through its
  send tool (\<open>main\<close> adds none), and the fallback's direct send is attempted exactly once
  if the primary pipeline raises and not at all if it returns. So both a primary and a
  fallback attempt occur when the pipeline raises after its send stage has attempted
  delivery, and none occurs when the pipeline returns without its send stage calling the
  tool.
\<close>

theorem C1_delivery_attempts_per_invocation:
  assumes "missing_vars cfg = []"
  shows "tool_sends (snd (main w cfg)) = length (kickoff_sends w)
         \<and> direct_sends (snd (main w cfg)) =
             (case kickoff_result w of Raises e \<Rightarrow> 1 | Returns result \<Rightarrow> 0)"
  using main_send_counts [OF assms, of w] by simp

theorem C1_delivery_attempts_per_invocation_witness:
  "missing_vars complete_config = []
   \<and> tool_sends (snd (main world_all_fail complete_config)) = 0
   \<and> direct_sends (snd (main world_all_fail complete_config)) = 1"
  using complete_config_valid
    C1_delivery_attempts_per_invocation [OF complete_config_valid, of world_all_fail]
  by (simp add: world_all_fail_def)

end
